theory Spec2Isabelle
  imports Main "HOL-Library.Word"
begin

section \<open>Basic types\<close>

text \<open>
  Go's \<open>uint8\<close>/\<open>byte\<close> is an 8-bit word (\<open>+\<close> wraps), a Go \<open>string\<close> and the
  string type \<open>Text\<close> are byte strings, a slice is a list.
\<close>

type_synonym byte = "8 word"
type_synonym Bytes = "byte list"
type_synonym Text = string

text \<open>
  \<open>CallIndex{mi, uint8(ci)}\<close> is a struct of two \<open>uint8\<close>; \<open>EventID\<close> is indexed
  with \<open>[0]\<close> and \<open>[1]\<close> and compared with a \<open>uint8\<close>. Both are pairs of bytes here:
  \<open>fst\<close> is the module (section) index, \<open>snd\<close> the index inside the module.
\<close>

type_synonym CallIndex = "byte \<times> byte"
type_synonym EventID = "byte \<times> byte"

text \<open>Types declared elsewhere, whose values the code only stores and passes on.\<close>

typedecl Type
typedecl StorageFunctionModifierV0
typedecl ModuleConstantMetadataV6
typedecl ErrorMetadataV8

text \<open>
  The type of a field of a caller-declared event struct, as the event decoder tells
  them apart: \<open>Phase\<close>, \<open>[]Hash\<close> (the topics), or any other type, kept by its
  printed name.
\<close>

datatype go_type = PhaseType | HashSliceType | OtherType string

section \<open>Errors\<close>

text \<open>
  Every \<open>fmt.Errorf\<close>/\<open>errors.New\<close> of the source is a constructor that carries the
  values the message is formatted from, in the order of the format string. A Go
  run-time panic (index out of range) is a result of its own.
\<close>

datatype error =
    CallModuleNotFound string string
      \<comment> \<open>\<open>module %v not found in metadata for call %v\<close>: \<open>s[0]\<close>, \<open>call\<close>\<close>
  | CallMethodNotFound string Text string
      \<comment> \<open>\<open>method %v not found within module %v for call %v\<close>: \<open>s[1]\<close>, \<open>mod.Name\<close>, \<open>call\<close>\<close>
  | EventIndexOutOfRange byte Text
      \<comment> \<open>\<open>event index %v for module %v out of range\<close>\<close>
  | ModuleIndexOutOfRange byte
      \<comment> \<open>\<open>module index %v out of range\<close>\<close>
  | StorageNotFound string string
      \<comment> \<open>\<open>storage %v not found within module %v\<close>: \<open>fn\<close>, \<open>module\<close>\<close>
  | StorageModuleNotFound string
      \<comment> \<open>\<open>module %v not found in metadata\<close>\<close>
  | OnlyDoubleMapsHaveHasher2
  | HashFuncNotSupported
      \<comment> \<open>\<open>hash function type not yet supported\<close>\<close>
  | Blake2bErrHashSize
  | Blake2bErrKeySize
  | PanicIndexOutOfRange
      \<comment> \<open>run-time panic: slice index out of range\<close>
  | BufferUnderrun
      \<comment> \<open>a decode past the end of the input\<close>
  | InvalidBool byte
      \<comment> \<open>a boolean byte other than 0x00 and 0x01\<close>
  | UnknownDiscriminant byte
      \<comment> \<open>a tagged-variant byte outside the recognised set\<close>
  | CodecError string
      \<comment> \<open>any other failure of an encoder or decoder\<close>
  | EventTooFewFields nat EventID string nat
      \<comment> \<open>event number, EventID, field name, number of fields\<close>
  | EventFirstFieldNotPhase nat EventID string go_type go_type
      \<comment> \<open>event number, EventID, field name, expected type, type found\<close>
  | EventLastFieldNotTopics nat EventID string go_type go_type
      \<comment> \<open>event number, EventID, field name, expected type, type found\<close>

section \<open>Slices and strings\<close>

text \<open>Indexing a slice: Go panics out of range, so the read is partial.\<close>

definition index :: "'a list \<Rightarrow> nat \<Rightarrow> 'a option" where
  "index xs i = (if i < length xs then Some (xs ! i) else None)"

text \<open>
  \<open>strings.Split(s, sep)\<close> for a one-byte separator (the source passes \<open>"."\<close>): the
  substrings between the separators, one more than there are separators; never empty.
\<close>

primrec strings_Split :: "string \<Rightarrow> char \<Rightarrow> string list" where
  "strings_Split [] sep = [[]]"
| "strings_Split (c # cs) sep =
     (if c = sep then [] # strings_Split cs sep
      else (c # hd (strings_Split cs sep)) # tl (strings_Split cs sep))"

section \<open>Metadata model\<close>

text \<open>
  The structs of the metadata (version 11). Of \<open>FunctionMetadataV4\<close> and
  \<open>EventMetadataV4\<close> the code reads the field \<open>Name\<close> only.
\<close>

record FunctionMetadataV4 =
  Name :: Text

record EventMetadataV4 =
  Name :: Text

record StorageHasherV11 =
  IsBlake2_128 :: bool
  IsBlake2_256 :: bool
  IsBlake2_128Concat :: bool
  IsTwox128 :: bool
  IsTwox256 :: bool
  IsTwox64Concat :: bool
  IsIdentity :: bool

record MapTypeV11 =
  Hasher :: StorageHasherV11
  Key :: Type
  Value :: Type
  Linked :: bool

record DoubleMapTypeV11 =
  Hasher :: StorageHasherV11
  Key1 :: Type
  Key2 :: Type
  Value :: Type
  Key2Hasher :: StorageHasherV11

record StorageFunctionTypeV11 =
  IsType :: bool
  AsType :: Type
  IsMap :: bool
  AsMap :: MapTypeV11
  IsDoubleMap :: bool
  AsDoubleMap :: DoubleMapTypeV11

record StorageFunctionMetadataV11 =
  Name :: Text
  Modifier :: StorageFunctionModifierV0
  Type :: StorageFunctionTypeV11
  Fallback :: Bytes
  Documentation :: "Text list"

record StorageMetadataV11 =
  Prefix :: Text
  Items :: "StorageFunctionMetadataV11 list"

record ModuleMetadataV11 =
  Name :: Text
  HasStorage :: bool
  Storage :: StorageMetadataV11
  HasCalls :: bool
  Calls :: "FunctionMetadataV4 list"
  HasEvents :: bool
  Events :: "EventMetadataV4 list"
  Constants :: "ModuleConstantMetadataV6 list"
  Errors :: "ErrorMetadataV8 list"

record ExtrinsicV11 =
  Version :: byte
  SignedExtensions :: "string list"

record MetadataV11 =
  Modules :: "ModuleMetadataV11 list"
  Extrinsic :: ExtrinsicV11

section \<open>Resolvers\<close>

subsection \<open>\<open>FindCallIndex\<close>\<close>

text \<open>
  The inner loop \<open>for ci, f := range mod.Calls\<close>. Each iteration reads \<open>s[1]\<close>, and
  so does the \<open>fmt.Errorf\<close> after the loop; \<open>ci\<close> is the position, cut to a
  \<open>uint8\<close> in the result.
\<close>

fun FindCallIndex_calls ::
  "string list \<Rightarrow> string \<Rightarrow> Text \<Rightarrow> byte \<Rightarrow> nat \<Rightarrow> FunctionMetadataV4 list \<Rightarrow> error + CallIndex"
where
  "FindCallIndex_calls s call modName mi ci [] =
     (case index s 1 of
        None \<Rightarrow> Inl PanicIndexOutOfRange
      | Some s1 \<Rightarrow> Inl (CallMethodNotFound s1 modName call))"
| "FindCallIndex_calls s call modName mi ci (f # fs) =
     (case index s 1 of
        None \<Rightarrow> Inl PanicIndexOutOfRange
      | Some s1 \<Rightarrow>
          if FunctionMetadataV4.Name f = s1 then Inr (mi, of_nat ci)
          else FindCallIndex_calls s call modName mi (Suc ci) fs)"

text \<open>The outer loop \<open>for _, mod := range m.Modules\<close> with the running index \<open>mi\<close>.\<close>

fun FindCallIndex_modules ::
  "string list \<Rightarrow> string \<Rightarrow> byte \<Rightarrow> ModuleMetadataV11 list \<Rightarrow> error + CallIndex"
where
  "FindCallIndex_modules s call mi [] =
     (case index s 0 of
        None \<Rightarrow> Inl PanicIndexOutOfRange
      | Some s0 \<Rightarrow> Inl (CallModuleNotFound s0 call))"
| "FindCallIndex_modules s call mi (md # mods) =
     (if \<not> HasCalls md then FindCallIndex_modules s call mi mods
      else
        (case index s 0 of
           None \<Rightarrow> Inl PanicIndexOutOfRange
         | Some s0 \<Rightarrow>
             if ModuleMetadataV11.Name md \<noteq> s0
             then FindCallIndex_modules s call (mi + 1) mods
             else FindCallIndex_calls s call (ModuleMetadataV11.Name md) mi 0 (Calls md)))"

definition FindCallIndex :: "MetadataV11 \<Rightarrow> string \<Rightarrow> error + CallIndex" where
  "FindCallIndex m call =
     FindCallIndex_modules (strings_Split call CHR ''.'') call 0 (Modules m)"

subsection \<open>\<open>FindEventNamesForEventID\<close>\<close>

fun FindEventNamesForEventID_modules ::
  "EventID \<Rightarrow> byte \<Rightarrow> ModuleMetadataV11 list \<Rightarrow> error + (Text \<times> Text)"
where
  "FindEventNamesForEventID_modules eventID mi [] =
     Inl (ModuleIndexOutOfRange (fst eventID))"
| "FindEventNamesForEventID_modules eventID mi (md # mods) =
     (if \<not> HasEvents md then FindEventNamesForEventID_modules eventID mi mods
      else if mi \<noteq> fst eventID
      then FindEventNamesForEventID_modules eventID (mi + 1) mods
      else if unat (snd eventID) \<ge> length (Events md)
      then Inl (EventIndexOutOfRange (snd eventID) (ModuleMetadataV11.Name md))
      else Inr (ModuleMetadataV11.Name md,
                EventMetadataV4.Name (Events md ! unat (snd eventID))))"

definition FindEventNamesForEventID ::
  "MetadataV11 \<Rightarrow> EventID \<Rightarrow> error + (Text \<times> Text)"
where
  "FindEventNamesForEventID m eventID =
     FindEventNamesForEventID_modules eventID 0 (Modules m)"

subsection \<open>\<open>FindStorageEntryMetadata\<close>\<close>

text \<open>The inner loop \<open>for _, s := range mod.Storage.Items\<close>.\<close>

fun FindStorageEntryMetadata_items ::
  "string \<Rightarrow> string \<Rightarrow> StorageFunctionMetadataV11 list \<Rightarrow> error + StorageFunctionMetadataV11"
where
  "FindStorageEntryMetadata_items module fn [] = Inl (StorageNotFound fn module)"
| "FindStorageEntryMetadata_items module fn (s # ss) =
     (if StorageFunctionMetadataV11.Name s \<noteq> fn
      then FindStorageEntryMetadata_items module fn ss
      else Inr s)"

fun FindStorageEntryMetadata_modules ::
  "string \<Rightarrow> string \<Rightarrow> ModuleMetadataV11 list \<Rightarrow> error + StorageFunctionMetadataV11"
where
  "FindStorageEntryMetadata_modules module fn [] = Inl (StorageModuleNotFound module)"
| "FindStorageEntryMetadata_modules module fn (md # mods) =
     (if \<not> HasStorage md then FindStorageEntryMetadata_modules module fn mods
      else if Prefix (Storage md) \<noteq> module
      then FindStorageEntryMetadata_modules module fn mods
      else FindStorageEntryMetadata_items module fn (Items (Storage md)))"

definition FindStorageEntryMetadata ::
  "MetadataV11 \<Rightarrow> string \<Rightarrow> string \<Rightarrow> error + StorageFunctionMetadataV11"
where
  "FindStorageEntryMetadata m module fn =
     FindStorageEntryMetadata_modules module fn (Modules m)"

section \<open>Hash construction layer\<close>

subsection \<open>The Blake2b digest\<close>

text \<open>
  \<open>blake2b.New(size, key)\<close> is the Blake2b package of the Go library: a \<open>hash.Hash\<close>
  that refuses a digest size outside 1..64 and a key longer than 64 bytes. By the
  contract of \<open>hash.Hash\<close>, \<open>Write\<close> adds bytes to the running hash and never fails,
  \<open>Reset\<close> returns to the initial state, and \<open>Sum(b)\<close> appends the digest of all bytes
  written so far to \<open>b\<close> without changing the state. The state is therefore the digest
  size, the key and the bytes written; the digest function itself is a parameter \<open>D\<close>
  (\<open>D size key bytes\<close>) of every \<open>Sum\<close>.
\<close>

record blake2b_digest =
  digest_size :: nat
  mac_key :: Bytes
  written :: Bytes

type_synonym digest_fn = "nat \<Rightarrow> Bytes \<Rightarrow> Bytes \<Rightarrow> Bytes"

definition blake2b_New :: "nat \<Rightarrow> Bytes \<Rightarrow> error + blake2b_digest" where
  "blake2b_New sz k =
     (if sz < 1 \<or> 64 < sz then Inl Blake2bErrHashSize
      else if 64 < length k then Inl Blake2bErrKeySize
      else Inr \<lparr>digest_size = sz, mac_key = k, written = []\<rparr>)"

definition blake2b_New256 :: "Bytes \<Rightarrow> error + blake2b_digest" where
  "blake2b_New256 k = blake2b_New 32 k"

definition blake2b_Reset :: "blake2b_digest \<Rightarrow> blake2b_digest" where
  "blake2b_Reset h = h\<lparr>written := []\<rparr>"

text \<open>\<open>Write\<close> returns the new state and the number of bytes taken (\<open>n\<close>; \<open>err\<close> is nil).\<close>

definition blake2b_Write :: "blake2b_digest \<Rightarrow> Bytes \<Rightarrow> blake2b_digest \<times> nat" where
  "blake2b_Write h p = (h\<lparr>written := written h @ p\<rparr>, length p)"

definition blake2b_Sum :: "digest_fn \<Rightarrow> blake2b_digest \<Rightarrow> Bytes \<Rightarrow> Bytes" where
  "blake2b_Sum D h b = b @ D (digest_size h) (mac_key h) (written h)"

subsection \<open>\<open>digestConcat128\<close>\<close>

record digestConcat128 =
  hasher :: blake2b_digest
  data :: Bytes

definition New128Concat :: "Bytes \<Rightarrow> error + digestConcat128" where
  "New128Concat k =
     (case blake2b_New 16 k of
        Inl err \<Rightarrow> Inl err
      | Inr h \<Rightarrow> Inr \<lparr>hasher = h, data = k\<rparr>)"

definition digestConcat128_Size :: "digestConcat128 \<Rightarrow> nat" where
  "digestConcat128_Size d = digest_size (hasher d)"

definition digestConcat128_Reset :: "digestConcat128 \<Rightarrow> digestConcat128" where
  "digestConcat128_Reset d = d\<lparr>data := [], hasher := blake2b_Reset (hasher d)\<rparr>"

definition digestConcat128_Write :: "digestConcat128 \<Rightarrow> Bytes \<Rightarrow> digestConcat128 \<times> nat" where
  "digestConcat128_Write d p =
     (let d1 = d\<lparr>data := data d @ p\<rparr>;
          (h, n) = blake2b_Write (hasher d1) p
      in (d1\<lparr>hasher := h\<rparr>, n))"

definition digestConcat128_Sum :: "digest_fn \<Rightarrow> digestConcat128 \<Rightarrow> Bytes \<Rightarrow> Bytes" where
  "digestConcat128_Sum D d b = blake2b_Sum D (hasher d) b @ data d"

text \<open>A sequence of \<open>Write\<close> calls, one per chunk.\<close>

definition digestConcat128_Writes :: "digestConcat128 \<Rightarrow> Bytes list \<Rightarrow> digestConcat128" where
  "digestConcat128_Writes d ps = foldl (\<lambda>d p. fst (digestConcat128_Write d p)) d ps"

section \<open>Storage key hasher\<close>

text \<open>
  The \<open>hash.Hash\<close> values \<open>HashFunc\<close> can return. The xxhash constructors
  (\<open>xxhash.New128\<close>, \<open>New256\<close>, \<open>New64Concat\<close>) belong to a package whose source is
  missing; their results are kept as the constructor called and its seed argument.
\<close>

datatype xxhash_kind = XX128 | XX256 | XX64Concat

datatype hash_Hash =
    Blake2bHash blake2b_digest
  | Concat128Hash digestConcat128
  | XXHash xxhash_kind Bytes

text \<open>A Go call returning \<open>(T, error)\<close> whose result is returned as a \<open>hash.Hash\<close>.\<close>

definition as_Hash :: "('a \<Rightarrow> hash_Hash) \<Rightarrow> error + 'a \<Rightarrow> error + hash_Hash" where
  "as_Hash C r = (case r of Inl err \<Rightarrow> Inl err | Inr h \<Rightarrow> Inr (C h))"

definition HashFunc :: "StorageHasherV11 \<Rightarrow> error + hash_Hash" where
  "HashFunc s =
     (if IsBlake2_128 s then as_Hash Blake2bHash (blake2b_New 16 [])
      else if IsBlake2_256 s then as_Hash Blake2bHash (blake2b_New256 [])
      else if IsBlake2_128Concat s then as_Hash Concat128Hash (New128Concat [])
      else if IsTwox128 s then Inr (XXHash XX128 [])
      else if IsTwox256 s then Inr (XXHash XX256 [])
      else if IsTwox64Concat s then Inr (XXHash XX64Concat [])
      else if IsIdentity s then as_Hash Concat128Hash (New128Concat [])
      else Inl HashFuncNotSupported)"

definition StorageFunctionMetadataV11_Hasher ::
  "StorageFunctionMetadataV11 \<Rightarrow> error + hash_Hash"
where
  "StorageFunctionMetadataV11_Hasher s =
     (if IsMap (Type s) then HashFunc (MapTypeV11.Hasher (AsMap (Type s)))
      else if IsDoubleMap (Type s) then HashFunc (DoubleMapTypeV11.Hasher (AsDoubleMap (Type s)))
      else Inr (XXHash XX128 []))"

definition StorageFunctionMetadataV11_Hasher2 ::
  "StorageFunctionMetadataV11 \<Rightarrow> error + hash_Hash"
where
  "StorageFunctionMetadataV11_Hasher2 s =
     (if \<not> IsDoubleMap (Type s) then Inl OnlyDoubleMapsHaveHasher2
      else HashFunc (Key2Hasher (AsDoubleMap (Type s))))"

definition IsPlain :: "StorageFunctionMetadataV11 \<Rightarrow> bool" where
  "IsPlain s = IsType (Type s)"

section \<open>Encoding and decoding a module\<close>

text \<open>The Go idiom \<open>if err != nil { return err }\<close>: stop at the first error.\<close>

definition check_err :: "error + 'a \<Rightarrow> ('a \<Rightarrow> error + 'b) \<Rightarrow> error + 'b" where
  "check_err r f = (case r of Inl err \<Rightarrow> Inl err | Inr x \<Rightarrow> f x)"

text \<open>
  \<open>encoder.Encode(v)\<close> appends the encoding of \<open>v\<close> to the output and
  \<open>decoder.Decode(&v)\<close> reads a value into \<open>v\<close> from the front of the input; both
  belong to the \<open>scale\<close> package, whose source is missing. An encoder is
  therefore a function from the value to the bytes it appends (or an error), a decoder
  a function from the value the target held before and the input to the value read and
  the rest of the input (or an error), and the encoders and decoders of the field types
  of a module are parameters.
\<close>

type_synonym 'a encoder = "'a \<Rightarrow> error + Bytes"
type_synonym 'a decoder = "'a \<Rightarrow> Bytes \<Rightarrow> error + ('a \<times> Bytes)"

record scale_codec =
  enc_Text :: "Text encoder"
  dec_Text :: "Text decoder"
  enc_Storage :: "StorageMetadataV11 encoder"
  dec_Storage :: "StorageMetadataV11 decoder"
  enc_Calls :: "FunctionMetadataV4 list encoder"
  dec_Calls :: "FunctionMetadataV4 list decoder"
  enc_Events :: "EventMetadataV4 list encoder"
  dec_Events :: "EventMetadataV4 list decoder"
  enc_Constants :: "ModuleConstantMetadataV6 list encoder"
  dec_Constants :: "ModuleConstantMetadataV6 list decoder"
  enc_Errors :: "ErrorMetadataV8 list encoder"
  dec_Errors :: "ErrorMetadataV8 list decoder"

text \<open>
  Modelled from the spec: the \<open>scale\<close> package's encoding of a \<open>bool\<close> is missing.
  The spec: booleans are one byte, 0x00/0x01; any other byte is a decode failure, and so
  is a read past the end of the input. Writing the byte cannot fail.
\<close>

definition encode_bool :: "bool encoder" where
  "encode_bool b = Inr [if b then 1 else 0]"


text \<open>
  \<open>ModuleMetadataV11.Encode\<close>: name, then for each optional section its flag and, only
  when the flag is set, the section, then constants and errors.
\<close>

definition ModuleMetadataV11_Encode :: "scale_codec \<Rightarrow> ModuleMetadataV11 encoder" where
  "ModuleMetadataV11_Encode c m =
     check_err (enc_Text c (ModuleMetadataV11.Name m)) (\<lambda>b1.
     check_err (encode_bool (HasStorage m)) (\<lambda>b2.
     check_err (if HasStorage m then enc_Storage c (Storage m) else Inr []) (\<lambda>b3.
     check_err (encode_bool (HasCalls m)) (\<lambda>b4.
     check_err (if HasCalls m then enc_Calls c (Calls m) else Inr []) (\<lambda>b5.
     check_err (encode_bool (HasEvents m)) (\<lambda>b6.
     check_err (if HasEvents m then enc_Events c (Events m) else Inr []) (\<lambda>b7.
     check_err (enc_Constants c (Constants m)) (\<lambda>b8.
     check_err (enc_Errors c (Errors m)) (\<lambda>b9.
     Inr (b1 @ b2 @ b3 @ b4 @ b5 @ b6 @ b7 @ b8 @ b9))))))))))"




section \<open>Dynamic event decoder\<close>

text \<open>
  The source of \<open>DecodeEventRecords\<close> is missing; its tests are present. Everything in
  this section follows the spec's description of the decoder and the error messages the
  tests expect.
\<close>

text \<open>
  Modelled from the spec: the type \<open>Phase\<close>, a tagged variant
  \<open>ApplyExtrinsic(u32) | Finalization | Initialization\<close>.
\<close>

datatype Phase = ApplyExtrinsic "32 word" | Finalization | Initialization

text \<open>
  Modelled from the spec: a slot of the caller's destination structure, a sequence of
  records; \<open>elem_fields\<close> are the types of the fields of its element type in declared
  order, \<open>records\<close> the records appended so far (the phase and the values of the
  remaining fields).
\<close>

record 'v event_slot =
  elem_fields :: "go_type list"
  records :: "(Phase \<times> 'v list) list"

text \<open>Modelled from the spec: the destination, a name-keyed collection of slots.\<close>

type_synonym 'v destination = "string \<Rightarrow> 'v event_slot option"

text \<open>
  Modelled from the spec: the primitives of the codec the decoder uses, as parameters:
  the compact integer of the record count, the phase, a field of a declared type, and
  what is done with the payload of an event that has no destination slot (which the spec
  leaves open).
\<close>

record 'v event_codec =
  decode_compact :: "Bytes \<Rightarrow> error + (nat \<times> Bytes)"
  decode_phase :: "Bytes \<Rightarrow> error + (Phase \<times> Bytes)"
  decode_field :: "go_type \<Rightarrow> Bytes \<Rightarrow> error + ('v \<times> Bytes)"
  skip_unmatched :: "Text \<Rightarrow> Text \<Rightarrow> Bytes \<Rightarrow> error + Bytes"

text \<open>
  Modelled from the spec: decoding an \<open>EventID\<close>, a pair
  \<open>(module_index: u8, event_index: u8)\<close>; reading past the end fails.
\<close>

definition decode_EventID :: "Bytes \<Rightarrow> error + (EventID \<times> Bytes)" where
  "decode_EventID bs =
     (case bs of
        b0 # b1 # rest \<Rightarrow> Inr ((b0, b1), rest)
      | _ \<Rightarrow> Inl BufferUnderrun)"

text \<open>
  Modelled from the spec: the fields after the phase (the middle fields and the topics)
  are decoded in declared order from the raw stream.
\<close>

fun decode_fields ::
  "('v, 'x) event_codec_scheme \<Rightarrow> go_type list \<Rightarrow> Bytes \<Rightarrow> error + ('v list \<times> Bytes)"
where
  "decode_fields c [] bs = Inr ([], bs)"
| "decode_fields c (t # ts) bs =
     check_err (decode_field c t bs) (\<lambda>(v, bs).
     check_err (decode_fields c ts bs) (\<lambda>(vs, bs). Inr (v # vs, bs)))"

text \<open>
  Modelled from the spec: the shape a matching slot's element type must have. It needs at
  least two fields, else the too-few-fields error naming the event, its ID and the field
  count; its first field must be exactly \<open>Phase\<close>, else the first-field error naming
  the type found; its last field must be exactly a sequence of hashes, else the
  last-field error. The tests give the values each message names: event number,
  \<open>EventID\<close>, field name, then the field count or the expected and the actual type.
\<close>

definition check_event_shape :: "nat \<Rightarrow> EventID \<Rightarrow> string \<Rightarrow> go_type list \<Rightarrow> error option" where
  "check_event_shape i eventID field fs =
     (if length fs < 2 then Some (EventTooFewFields i eventID field (length fs))
      else if hd fs \<noteq> PhaseType
      then Some (EventFirstFieldNotPhase i eventID field PhaseType (hd fs))
      else if last fs \<noteq> HashSliceType
      then Some (EventLastFieldNotTopics i eventID field HashSliceType (last fs))
      else None)"

text \<open>
  Modelled from the spec: one record. Decode the phase and the \<open>EventID\<close>, resolve the
  module and event names, derive the field name \<open>{module}_{event}\<close>; if the destination
  has that slot, check its shape, decode the remaining fields and append the record.
\<close>

definition decode_event_record ::
  "('v, 'x) event_codec_scheme \<Rightarrow> MetadataV11 \<Rightarrow> 'v destination \<Rightarrow> nat \<Rightarrow> Bytes
     \<Rightarrow> error + ('v destination \<times> Bytes)"
where
  "decode_event_record c m dest i bs =
     check_err (decode_phase c bs) (\<lambda>(phase, bs).
     check_err (decode_EventID bs) (\<lambda>(eventID, bs).
     check_err (FindEventNamesForEventID m eventID) (\<lambda>(moduleName, eventName).
     let field = moduleName @ ''_'' @ eventName in
     case dest field of
       None \<Rightarrow> check_err (skip_unmatched c moduleName eventName bs) (\<lambda>bs. Inr (dest, bs))
     | Some slot \<Rightarrow>
         (case check_event_shape i eventID field (elem_fields slot) of
            Some err \<Rightarrow> Inl err
          | None \<Rightarrow>
              check_err (decode_fields c (tl (elem_fields slot)) bs) (\<lambda>(vs, bs).
              Inr (dest(field \<mapsto> slot\<lparr>records := records slot @ [(phase, vs)]\<rparr>), bs))))))"

text \<open>
  Modelled from the spec: the records are decoded one after the other, \<open>n\<close> of them
  starting with number \<open>i\<close>; the first failure ends the decode.
\<close>

fun decode_event_records_from ::
  "('v, 'x) event_codec_scheme \<Rightarrow> MetadataV11 \<Rightarrow> 'v destination \<Rightarrow> nat \<Rightarrow> nat \<Rightarrow> Bytes
     \<Rightarrow> error + ('v destination \<times> Bytes)"
where
  "decode_event_records_from c m dest i 0 bs = Inr (dest, bs)"
| "decode_event_records_from c m dest i (Suc n) bs =
     check_err (decode_event_record c m dest i bs) (\<lambda>(dest, bs).
     decode_event_records_from c m dest (Suc i) n bs)"

text \<open>
  Modelled from the spec: \<open>DecodeEventRecords\<close>. The leading compact integer is the
  record count; that many records are decoded; bytes after them are not an error.
\<close>

definition DecodeEventRecords ::
  "('v, 'x) event_codec_scheme \<Rightarrow> Bytes \<Rightarrow> MetadataV11 \<Rightarrow> 'v destination
     \<Rightarrow> error + 'v destination"
where
  "DecodeEventRecords c e m dest =
     check_err (decode_compact c e) (\<lambda>(n, bs).
     check_err (decode_event_records_from c m dest 0 n bs) (\<lambda>(dest, bs). Inr dest))"

section \<open>Example metadata\<close>

text \<open>
  The modules \<open>[A(no calls), B(calls [f]), C(calls [g, h])]\<close>; every section that is
  not named is absent or empty. \<open>B\<close> also declares storage under the prefix
  \<open>Bank\<close> (with no entries), and \<open>C\<close> declares two events.
\<close>

definition empty_storage :: StorageMetadataV11 where
  "empty_storage = \<lparr>Prefix = [], Items = []\<rparr>"

definition module_A :: ModuleMetadataV11 where
  "module_A =
     \<lparr>Name = ''A'', HasStorage = False, Storage = empty_storage,
      HasCalls = False, Calls = [], HasEvents = False, Events = [],
      Constants = [], Errors = []\<rparr>"

definition module_B :: ModuleMetadataV11 where
  "module_B =
     \<lparr>Name = ''B'', HasStorage = True, Storage = \<lparr>Prefix = ''Bank'', Items = []\<rparr>,
      HasCalls = True, Calls = [\<lparr>FunctionMetadataV4.Name = ''f''\<rparr>],
      HasEvents = False, Events = [],
      Constants = [], Errors = []\<rparr>"

definition module_C :: ModuleMetadataV11 where
  "module_C =
     \<lparr>Name = ''C'', HasStorage = False, Storage = empty_storage,
      HasCalls = True,
      Calls = [\<lparr>FunctionMetadataV4.Name = ''g''\<rparr>, \<lparr>FunctionMetadataV4.Name = ''h''\<rparr>],
      HasEvents = True,
      Events = [\<lparr>EventMetadataV4.Name = ''x''\<rparr>, \<lparr>EventMetadataV4.Name = ''y''\<rparr>],
      Constants = [], Errors = []\<rparr>"

definition example_metadata :: MetadataV11 where
  "example_metadata =
     \<lparr>Modules = [module_A, module_B, module_C],
      Extrinsic = \<lparr>Version = 4, SignedExtensions = []\<rparr>\<rparr>"

section \<open>Example hashers and codecs\<close>

text \<open>The hasher selectors that \<open>StorageHasherV11.Decode\<close> produces for the tags 2 and 6.\<close>

definition hasher_none :: StorageHasherV11 where
  "hasher_none =
     \<lparr>IsBlake2_128 = False, IsBlake2_256 = False, IsBlake2_128Concat = False,
      IsTwox128 = False, IsTwox256 = False, IsTwox64Concat = False, IsIdentity = False\<rparr>"

definition hasher_Blake2_128Concat :: StorageHasherV11 where
  "hasher_Blake2_128Concat = hasher_none\<lparr>IsBlake2_128Concat := True\<rparr>"

definition hasher_Identity :: StorageHasherV11 where
  "hasher_Identity = hasher_none\<lparr>IsIdentity := True\<rparr>"

text \<open>A stand-in for the digest function in examples: \<open>size\<close> zero bytes.\<close>

definition zero_digest :: digest_fn where
  "zero_digest sz k bs = replicate sz 0"

text \<open>
  The hasher \<open>New128Concat([]byte{9, 9})\<close> returns, and the one \<open>New128Concat(nil)\<close>
  returns.
\<close>

definition keyed_hasher :: digestConcat128 where
  "keyed_hasher = \<lparr>hasher = \<lparr>digest_size = 16, mac_key = [9, 9], written = []\<rparr>, data = [9, 9]\<rparr>"

definition fresh_hasher :: digestConcat128 where
  "fresh_hasher = \<lparr>hasher = \<lparr>digest_size = 16, mac_key = [], written = []\<rparr>, data = []\<rparr>"











text \<open>
  For the event decoder: a record count in one byte (the value shifted left by two), a
  phase as the tag 0 followed by a little-endian \<open>u32\<close>, or the tag 1 for
  \<open>Finalization\<close>; no field type can be decoded. The raw log holds one record,
  \<open>ApplyExtrinsic(2)\<close> with \<open>EventID [0 1]\<close>, which \<open>example_metadata\<close> resolves to
  \<open>C_y\<close>; the destinations declare the slot \<open>C_y\<close> with the element types of the
  three tests.
\<close>

definition example_event_codec :: "unit event_codec" where
  "example_event_codec =
     \<lparr>decode_compact = (\<lambda>bs.
        case bs of
          [] \<Rightarrow> Inl BufferUnderrun
        | b # rest \<Rightarrow>
            if b mod 4 = 0 then Inr (unat b div 4, rest) else Inl (CodecError ''unsupported'')),
      decode_phase = (\<lambda>bs.
        case bs of
          [] \<Rightarrow> Inl BufferUnderrun
        | t # rest \<Rightarrow>
            if t = 0 then
              (case rest of
                 b0 # b1 # b2 # b3 # rest \<Rightarrow>
                   Inr (ApplyExtrinsic
                          (of_nat (unat b0 + 256 * (unat b1 + 256 * (unat b2 + 256 * unat b3)))),
                        rest)
               | _ \<Rightarrow> Inl BufferUnderrun)
            else if t = 1 then Inr (Finalization, rest)
            else Inl (UnknownDiscriminant t)),
      decode_field = (\<lambda>t bs. Inl (CodecError ''unsupported'')),
      skip_unmatched = (\<lambda>moduleName eventName bs. Inl (CodecError ''unsupported''))\<rparr>"

definition example_raw :: Bytes where
  "example_raw = [4, 0, 2, 0, 0, 0, 0, 1, 7, 7]"

definition example_destination :: "go_type list \<Rightarrow> unit destination" where
  "example_destination fs = [''C_y'' \<mapsto> \<lparr>elem_fields = fs, records = []\<rparr>]"

section \<open>Properties of the resolvers\<close>

lemmas example_defs =
  example_metadata_def module_A_def module_B_def module_C_def empty_storage_def

subsection \<open>Splitting the call string\<close>

lemma strings_Split_no_sep: "sep \<notin> set s \<Longrightarrow> strings_Split s sep = [s]"
  by (induction s) auto

lemma strings_Split_append:
  "sep \<notin> set a \<Longrightarrow> strings_Split (a @ sep # b) sep = a # strings_Split b sep"
  by (induction a) auto

lemma strings_Split_two:
  "sep \<notin> set a \<Longrightarrow> sep \<notin> set b \<Longrightarrow> strings_Split (a @ sep # b) sep = [a, b]"
  by (simp add: strings_Split_append strings_Split_no_sep)

subsection \<open>Call resolution\<close>

lemma FindCallIndex_calls_char:
  "index s 1 = Some cname \<Longrightarrow>
   FindCallIndex_calls s call mn mi ci fs =
     (if cname \<notin> FunctionMetadataV4.Name ` set fs then Inl (CallMethodNotFound cname mn call)
      else Inr (mi, of_nat (ci + length (takeWhile (\<lambda>f. FunctionMetadataV4.Name f \<noteq> cname) fs))))"
  by (induction fs arbitrary: ci) auto

lemma FindCallIndex_modules_char:
  "index s 0 = Some mname \<Longrightarrow>
   FindCallIndex_modules s call mi mods =
     (case List.find (\<lambda>md. ModuleMetadataV11.Name md = mname) (filter HasCalls mods) of
        None \<Rightarrow> Inl (CallModuleNotFound mname call)
      | Some md \<Rightarrow>
          FindCallIndex_calls s call mname
            (mi + of_nat (length (takeWhile (\<lambda>md. ModuleMetadataV11.Name md \<noteq> mname)
                                   (filter HasCalls mods))))
            0 (Calls md))"
proof (induction mods arbitrary: mi)
  case Nil
  then show ?case by simp
next
  case (Cons a mods)
  show ?case
  proof (cases "HasCalls a")
    case False
    then show ?thesis using Cons by (simp split: option.splits)
  next
    case True
    show ?thesis
    proof (cases "ModuleMetadataV11.Name a = mname")
      case True
      with \<open>HasCalls a\<close> Cons.prems show ?thesis by simp
    next
      case False
      with \<open>HasCalls a\<close> Cons.prems Cons.IH[of "mi + 1"] show ?thesis
        by (simp add: algebra_simps split: option.splits)
    qed
  qed
qed

text \<open>
  C1. For a query \<open>Module.call\<close> (neither part contains a dot) \<open>FindCallIndex\<close> looks
  only at the modules with \<open>HasCalls\<close>, in declaration order: the module index it
  returns is the number of calls-bearing modules before the first calls-bearing module
  named \<open>Module\<close> (modules without calls take no slot, every calls-bearing module with
  another name takes one), and the call index is the position of the first call named
  \<open>call\<close>; both are cut to a \<open>uint8\<close>. For the modules
  \<open>[A(no calls), B(calls [f]), C(calls [g, h])]\<close> it returns \<open>(0, 0)\<close> for \<open>B.f\<close> and
  \<open>(1, 1)\<close> for \<open>C.h\<close>.
\<close>

theorem FindCallIndex_dense_index:
  assumes "CHR ''.'' \<notin> set mname" and "CHR ''.'' \<notin> set cname"
  shows "FindCallIndex m (mname @ ''.'' @ cname) =
           (case List.find (\<lambda>md. ModuleMetadataV11.Name md = mname)
                   (filter HasCalls (Modules m)) of
              None \<Rightarrow> Inl (CallModuleNotFound mname (mname @ ''.'' @ cname))
            | Some md \<Rightarrow>
                if cname \<notin> FunctionMetadataV4.Name ` set (Calls md)
                then Inl (CallMethodNotFound cname mname (mname @ ''.'' @ cname))
                else Inr (of_nat (length (takeWhile (\<lambda>md. ModuleMetadataV11.Name md \<noteq> mname)
                                            (filter HasCalls (Modules m)))),
                          of_nat (length (takeWhile (\<lambda>f. FunctionMetadataV4.Name f \<noteq> cname)
                                            (Calls md)))))
         \<and> FindCallIndex example_metadata ''B.f'' = Inr (0, 0)
         \<and> FindCallIndex example_metadata ''C.h'' = Inr (1, 1)"
proof -
  let ?s = "strings_Split (mname @ ''.'' @ cname) CHR ''.''"
  have s: "?s = [mname, cname]"
    using assms by (simp add: strings_Split_two)
  have s0: "index ?s 0 = Some mname" and s1: "index ?s 1 = Some cname"
    using s by (simp_all add: index_def)
  have general: "FindCallIndex m (mname @ ''.'' @ cname) =
           (case List.find (\<lambda>md. ModuleMetadataV11.Name md = mname)
                   (filter HasCalls (Modules m)) of
              None \<Rightarrow> Inl (CallModuleNotFound mname (mname @ ''.'' @ cname))
            | Some md \<Rightarrow>
                if cname \<notin> FunctionMetadataV4.Name ` set (Calls md)
                then Inl (CallMethodNotFound cname mname (mname @ ''.'' @ cname))
                else Inr (of_nat (length (takeWhile (\<lambda>md. ModuleMetadataV11.Name md \<noteq> mname)
                                            (filter HasCalls (Modules m)))),
                          of_nat (length (takeWhile (\<lambda>f. FunctionMetadataV4.Name f \<noteq> cname)
                                            (Calls md)))))"
    unfolding FindCallIndex_def
    by (simp only: FindCallIndex_modules_char[OF s0] FindCallIndex_calls_char[OF s1])
       (simp split: option.splits)
  have b: "FindCallIndex example_metadata ''B.f'' = Inr (0, 0)"
    by (simp add: FindCallIndex_def example_defs index_def)
  have c: "FindCallIndex example_metadata ''C.h'' = Inr (1, 1)"
    by (simp add: FindCallIndex_def example_defs index_def)
  from general b c show ?thesis by blast
qed

theorem FindCallIndex_dense_index_witness:
  "CHR ''.'' \<notin> set ''C'' \<and> CHR ''.'' \<notin> set ''h''
   \<and> List.find (\<lambda>md. ModuleMetadataV11.Name md = ''C'')
        (filter HasCalls (Modules example_metadata)) = Some module_C
   \<and> FindCallIndex example_metadata ''C.h'' = Inr (1, 1)"
  using FindCallIndex_dense_index [of "''C''" "''h''" example_metadata]
  by (simp add: example_defs)

text \<open>
  C9. When the call string has no dot and is the name of a module with \<open>HasCalls\<close>, the
  loop reaches the first such module and reads \<open>s[1]\<close> of a one-element split: the
  index is out of range (a panic in Go), and no not-found error is returned.
\<close>

theorem FindCallIndex_without_dot_panics:
  assumes "CHR ''.'' \<notin> set call"
    and "md \<in> set (Modules m)" and "HasCalls md" and "ModuleMetadataV11.Name md = call"
  shows "FindCallIndex m call = Inl PanicIndexOutOfRange"
proof -
  have calls: "FindCallIndex_calls [call] call n mi 0 fs = Inl PanicIndexOutOfRange"
    for n mi fs
    by (cases fs) (simp_all add: index_def)
  have "md \<in> set mods \<Longrightarrow> FindCallIndex_modules [call] call mi mods = Inl PanicIndexOutOfRange"
    for mods mi
  proof (induction mods arbitrary: mi)
    case Nil
    then show ?case by simp
  next
    case (Cons a mods)
    then show ?case using assms(3,4) by (auto simp: index_def calls)
  qed
  then show ?thesis
    using assms(1,2) by (simp add: FindCallIndex_def strings_Split_no_sep)
qed

theorem FindCallIndex_without_dot_panics_witness:
  "CHR ''.'' \<notin> set ''B'' \<and> module_B \<in> set (Modules example_metadata) \<and> HasCalls module_B
   \<and> ModuleMetadataV11.Name module_B = ''B''
   \<and> FindCallIndex example_metadata ''B'' = Inl PanicIndexOutOfRange"
  using FindCallIndex_without_dot_panics [of "''B''" module_B example_metadata]
  by (simp add: example_defs)

subsection \<open>Event resolution\<close>

lemma unat_succ_below:
  "(mi::byte) \<noteq> e \<Longrightarrow> unat mi \<le> unat e \<Longrightarrow> unat (mi + 1) = Suc (unat mi)"
  by (metis (no_types, lifting) add.commute inc_less_eq_self_imp_top
      order_antisym_conv unatSuc word_coorder.extremum word_le_nat_alt)

lemma FindEventNamesForEventID_modules_char:
  "unat mi \<le> unat (fst eventID) \<Longrightarrow>
   FindEventNamesForEventID_modules eventID mi mods =
     (let es = filter HasEvents mods; d = unat (fst eventID) - unat mi in
      if length es \<le> d then Inl (ModuleIndexOutOfRange (fst eventID))
      else if length (Events (es ! d)) \<le> unat (snd eventID)
      then Inl (EventIndexOutOfRange (snd eventID) (ModuleMetadataV11.Name (es ! d)))
      else Inr (ModuleMetadataV11.Name (es ! d),
                EventMetadataV4.Name (Events (es ! d) ! unat (snd eventID))))"
proof (induction mods arbitrary: mi)
  case Nil
  then show ?case by simp
next
  case (Cons a mods)
  show ?case
  proof (cases "HasEvents a")
    case False
    then show ?thesis using Cons by simp
  next
    case True
    show ?thesis
    proof (cases "mi = fst eventID")
      case True
      with \<open>HasEvents a\<close> show ?thesis by (simp add: Let_def)
    next
      case False
      have lt: "unat mi < unat (fst eventID)"
        using False Cons.prems by (simp add: word_unat_eq_iff)
      have s: "unat (mi + 1) = Suc (unat mi)"
        using False Cons.prems by (rule unat_succ_below)
      obtain d where d: "unat (fst eventID) - unat mi = Suc d"
        using lt by (cases "unat (fst eventID) - unat mi") auto
      then have d': "unat (fst eventID) - Suc (unat mi) = d" by simp
      have "unat (mi + 1) \<le> unat (fst eventID)" using lt s by simp
      from Cons.IH[OF this] show ?thesis using False \<open>HasEvents a\<close> s d d'
        by (simp add: Let_def)
    qed
  qed
qed

text \<open>
  C5. \<open>FindEventNamesForEventID\<close> numbers the modules with \<open>HasEvents\<close> from 0 in
  declaration order. With \<open>es\<close> the events-bearing modules: if \<open>es\<close> has no module at
  position \<open>eventID[0]\<close> the result is the module-index-out-of-range error; otherwise,
  for the module at that position, it is the event-index-out-of-range error when
  \<open>eventID[1]\<close> is at least the number of its events, and else the module's name and
  the name of its event at position \<open>eventID[1]\<close>. In the example metadata, whose only
  events-bearing module is \<open>C\<close> (the third module), \<open>[0 1]\<close> is \<open>C\<close>'s event \<open>y\<close>,
  \<open>[0 2]\<close> is out of range for the event and \<open>[1 0]\<close> for the module.
\<close>

theorem FindEventNamesForEventID_char:
  "FindEventNamesForEventID m eventID =
     (let es = filter HasEvents (Modules m); i = unat (fst eventID); j = unat (snd eventID) in
      if length es \<le> i then Inl (ModuleIndexOutOfRange (fst eventID))
      else if length (Events (es ! i)) \<le> j
      then Inl (EventIndexOutOfRange (snd eventID) (ModuleMetadataV11.Name (es ! i)))
      else Inr (ModuleMetadataV11.Name (es ! i), EventMetadataV4.Name (Events (es ! i) ! j)))
   \<and> FindEventNamesForEventID example_metadata (0, 1) = Inr (''C'', ''y'')
   \<and> FindEventNamesForEventID example_metadata (0, 2) = Inl (EventIndexOutOfRange 2 ''C'')
   \<and> FindEventNamesForEventID example_metadata (1, 0) = Inl (ModuleIndexOutOfRange 1)"
proof -
  have "FindEventNamesForEventID m eventID =
     (let es = filter HasEvents (Modules m); i = unat (fst eventID); j = unat (snd eventID) in
      if length es \<le> i then Inl (ModuleIndexOutOfRange (fst eventID))
      else if length (Events (es ! i)) \<le> j
      then Inl (EventIndexOutOfRange (snd eventID) (ModuleMetadataV11.Name (es ! i)))
      else Inr (ModuleMetadataV11.Name (es ! i), EventMetadataV4.Name (Events (es ! i) ! j)))"
    unfolding FindEventNamesForEventID_def
    by (subst FindEventNamesForEventID_modules_char) (simp_all add: Let_def)
  moreover have "FindEventNamesForEventID example_metadata (0, 1) = Inr (''C'', ''y'')"
    by (simp add: FindEventNamesForEventID_def example_defs)
  moreover have "FindEventNamesForEventID example_metadata (0, 2)
                   = Inl (EventIndexOutOfRange 2 ''C'')"
    by (simp add: FindEventNamesForEventID_def example_defs)
  moreover have "FindEventNamesForEventID example_metadata (1, 0)
                   = Inl (ModuleIndexOutOfRange 1)"
    by (simp add: FindEventNamesForEventID_def example_defs)
  ultimately show ?thesis by blast
qed

subsection \<open>Storage resolution\<close>

lemma FindStorageEntryMetadata_items_char:
  "FindStorageEntryMetadata_items module fn ss =
     (case List.find (\<lambda>s. StorageFunctionMetadataV11.Name s = fn) ss of
        None \<Rightarrow> Inl (StorageNotFound fn module)
      | Some s \<Rightarrow> Inr s)"
  by (induction ss) auto

lemma FindStorageEntryMetadata_modules_char:
  "FindStorageEntryMetadata_modules module fn mods =
     (case List.find (\<lambda>md. HasStorage md \<and> Prefix (Storage md) = module) mods of
        None \<Rightarrow> Inl (StorageModuleNotFound module)
      | Some md \<Rightarrow> FindStorageEntryMetadata_items module fn (Items (Storage md)))"
  by (induction mods) auto

lemma FindStorageEntryMetadata_modules_rename:
  "FindStorageEntryMetadata_modules module fn
     (map (\<lambda>md. md\<lparr>ModuleMetadataV11.Name := f md\<rparr>) mods)
   = FindStorageEntryMetadata_modules module fn mods"
  by (induction mods) auto

text \<open>
  C7. \<open>FindStorageEntryMetadata\<close> takes the first module, in declaration order, that has
  \<open>HasStorage\<close> and whose storage \<open>Prefix\<close> is the queried module string, and returns
  the first entry named \<open>fn\<close> of that module. It fails with the module-not-found error
  when no storage-bearing module has that prefix, and with the storage-not-found error
  when that module has no entry named \<open>fn\<close>. The modules' own names play no part:
  renaming every module in any way leaves the result unchanged.
\<close>

theorem FindStorageEntryMetadata_by_prefix:
  "FindStorageEntryMetadata m module fn =
     (case List.find (\<lambda>md. HasStorage md \<and> Prefix (Storage md) = module) (Modules m) of
        None \<Rightarrow> Inl (StorageModuleNotFound module)
      | Some md \<Rightarrow>
          (case List.find (\<lambda>s. StorageFunctionMetadataV11.Name s = fn) (Items (Storage md)) of
             None \<Rightarrow> Inl (StorageNotFound fn module)
           | Some s \<Rightarrow> Inr s))
   \<and> FindStorageEntryMetadata
        (m\<lparr>Modules := map (\<lambda>md. md\<lparr>ModuleMetadataV11.Name := f md\<rparr>) (Modules m)\<rparr>) module fn
       = FindStorageEntryMetadata m module fn
   \<and> FindStorageEntryMetadata example_metadata ''Bank'' fn = Inl (StorageNotFound fn ''Bank'')
   \<and> FindStorageEntryMetadata example_metadata ''B'' fn = Inl (StorageModuleNotFound ''B'')"
proof -
  have 1: "FindStorageEntryMetadata m module fn =
     (case List.find (\<lambda>md. HasStorage md \<and> Prefix (Storage md) = module) (Modules m) of
        None \<Rightarrow> Inl (StorageModuleNotFound module)
      | Some md \<Rightarrow>
          (case List.find (\<lambda>s. StorageFunctionMetadataV11.Name s = fn) (Items (Storage md)) of
             None \<Rightarrow> Inl (StorageNotFound fn module)
           | Some s \<Rightarrow> Inr s))"
    by (simp add: FindStorageEntryMetadata_def FindStorageEntryMetadata_modules_char
        FindStorageEntryMetadata_items_char split: option.splits)
  have 2: "FindStorageEntryMetadata
        (m\<lparr>Modules := map (\<lambda>md. md\<lparr>ModuleMetadataV11.Name := f md\<rparr>) (Modules m)\<rparr>) module fn
       = FindStorageEntryMetadata m module fn"
    by (simp add: FindStorageEntryMetadata_def FindStorageEntryMetadata_modules_rename)
  have 3: "FindStorageEntryMetadata example_metadata ''Bank'' fn = Inl (StorageNotFound fn ''Bank'')"
    by (simp add: FindStorageEntryMetadata_def example_defs)
  have 4: "FindStorageEntryMetadata example_metadata ''B'' fn = Inl (StorageModuleNotFound ''B'')"
    by (simp add: FindStorageEntryMetadata_def example_defs)
  from 1 2 3 4 show ?thesis by blast
qed

section \<open>Properties of the hash construction layer\<close>

lemma New128Concat_nil:
  "New128Concat [] =
     Inr \<lparr>hasher = \<lparr>digest_size = 16, mac_key = [], written = []\<rparr>, data = []\<rparr>"
  by (simp add: New128Concat_def blake2b_New_def)

lemma digestConcat128_Write_eq:
  "fst (digestConcat128_Write d p) =
     \<lparr>hasher = (hasher d)\<lparr>written := written (hasher d) @ p\<rparr>, data = data d @ p\<rparr>"
  by (simp add: digestConcat128_Write_def blake2b_Write_def Let_def)

lemma digestConcat128_Writes_eq:
  "digestConcat128_Writes d ps =
     \<lparr>hasher = (hasher d)\<lparr>written := written (hasher d) @ concat ps\<rparr>,
      data = data d @ concat ps\<rparr>"
proof (induction ps arbitrary: d)
  case Nil
  show ?case by (simp add: digestConcat128_Writes_def)
next
  case (Cons p ps)
  have "digestConcat128_Writes d (p # ps) =
          digestConcat128_Writes (fst (digestConcat128_Write d p)) ps"
    by (simp add: digestConcat128_Writes_def)
  then show ?case by (simp add: Cons.IH digestConcat128_Write_eq)
qed

text \<open>
  With a non-empty key the constructor also puts the key into the buffer, so the sum of a
  keyed hasher carries the key between the digest and the written bytes, and \<open>Reset\<close>
  gives back the fresh hasher only for the empty key.
\<close>

lemma New128Concat_keyed_Sum:
  "New128Concat k = Inr d \<Longrightarrow>
   digestConcat128_Sum D (digestConcat128_Writes d ps) [] = D 16 k (concat ps) @ k @ concat ps"
  by (auto simp add: New128Concat_def blake2b_New_def digestConcat128_Writes_eq
      digestConcat128_Sum_def blake2b_Sum_def split: if_splits)

lemma New128Concat_keyed_Reset:
  "New128Concat k = Inr d \<Longrightarrow> digestConcat128_Reset d = d \<longleftrightarrow> k = []"
  by (auto simp add: New128Concat_def blake2b_New_def digestConcat128_Reset_def
      blake2b_Reset_def split: if_splits)

lemma New128Concat_keyed_Sum_length:
  "New128Concat k = Inr d \<Longrightarrow> length (D 16 k (concat ps)) = 16 \<Longrightarrow>
   length (digestConcat128_Sum D (digestConcat128_Writes d ps) [])
     = 16 + length k + length (concat ps)"
  by (simp add: New128Concat_keyed_Sum)

text \<open>
  C4. For the hasher made by \<open>New128Concat(nil)\<close> and any sequence of
  \<open>Write\<close> calls whose chunks concatenate to \<open>k\<close>, \<open>Sum(nil)\<close> is the Blake2b-128 digest
  of \<open>k\<close> followed by \<open>k\<close>. With a digest of 16 bytes the result has \<open>16 + |k|\<close> bytes,
  so it is never \<open>k\<close> alone, and it is the digest alone exactly when \<open>k\<close> is empty.
\<close>

theorem New128Concat_Sum_digest_then_input:
  assumes "length (D 16 [] (concat ps)) = 16"
  shows "\<exists>d. New128Concat [] = Inr d
           \<and> digestConcat128_Sum D (digestConcat128_Writes d ps) []
               = D 16 [] (concat ps) @ concat ps
           \<and> length (digestConcat128_Sum D (digestConcat128_Writes d ps) [])
               = 16 + length (concat ps)
           \<and> digestConcat128_Sum D (digestConcat128_Writes d ps) [] \<noteq> concat ps
           \<and> (digestConcat128_Sum D (digestConcat128_Writes d ps) [] = D 16 [] (concat ps)
                \<longleftrightarrow> concat ps = [])"
  using assms
  by (auto simp add: New128Concat_nil digestConcat128_Writes_eq digestConcat128_Sum_def
      blake2b_Sum_def)

theorem New128Concat_Sum_digest_then_input_witness:
  "length (zero_digest 16 [] (concat [[1, 2], [3]])) = 16
   \<and> (\<exists>d. New128Concat [] = Inr d
         \<and> digestConcat128_Sum zero_digest (digestConcat128_Writes d [[1, 2], [3]]) []
             = replicate 16 0 @ [1, 2, 3])"
  using New128Concat_Sum_digest_then_input [of zero_digest "[[1, 2], [3]]"]
  by (auto simp add: zero_digest_def)

text \<open>
  C4, counterexample. Stated for every hasher \<open>New128Concat\<close> makes and every sequence
  of writes, the property fails twice. The hasher made with the key \<open>[9, 9]\<close>, after \<open>Write([1])\<close>,
  returns the digest followed by \<open>[9, 9, 1]\<close>: 19 bytes, where a 16-byte digest followed
  by \<open>k = [1]\<close> has 17 (by \<open>New128Concat_keyed_Sum_length\<close> the lengths differ for every
  16-byte digest function). And the hasher made with no key returns the digest alone
  when nothing is written.
\<close>

theorem New128Concat_Sum_counterexample:
  "New128Concat [9, 9] = Inr keyed_hasher
   \<and> digestConcat128_Sum zero_digest (digestConcat128_Writes keyed_hasher [[1]]) []
       = zero_digest 16 [9, 9] [1] @ [9, 9, 1]
   \<and> digestConcat128_Sum zero_digest (digestConcat128_Writes keyed_hasher [[1]]) []
       \<noteq> zero_digest 16 [9, 9] [1] @ [1]
   \<and> digestConcat128_Sum zero_digest (digestConcat128_Writes keyed_hasher [[1]]) []
       \<noteq> zero_digest 16 [] [1] @ [1]
   \<and> length (digestConcat128_Sum zero_digest (digestConcat128_Writes keyed_hasher [[1]]) []) = 19
   \<and> New128Concat [] = Inr fresh_hasher
   \<and> digestConcat128_Sum zero_digest (digestConcat128_Writes fresh_hasher []) []
       = zero_digest 16 [] []"
  by (simp add: New128Concat_def blake2b_New_def keyed_hasher_def fresh_hasher_def
      digestConcat128_Writes_eq digestConcat128_Sum_def blake2b_Sum_def zero_digest_def)



section \<open>Properties of the storage key hasher\<close>

text \<open>
  C2. A selector that is \<open>Identity\<close> (no flag tested before \<open>IsIdentity\<close> is set) and a
  selector that is \<open>Blake2_128Concat\<close> (no flag tested before it is set) get the same
  hasher from \<open>HashFunc\<close>: the one \<open>New128Concat(nil)\<close> makes. Writing a key \<open>k\<close> to it
  and taking \<open>Sum(nil)\<close> gives the 16-byte digest of \<open>k\<close> followed by \<open>k\<close>, never \<open>k\<close>
  alone.
\<close>

theorem HashFunc_Identity_is_Blake2_128Concat:
  assumes "IsIdentity s" and "\<not> IsBlake2_128 s" and "\<not> IsBlake2_256 s"
    and "\<not> IsTwox128 s" and "\<not> IsTwox256 s" and "\<not> IsTwox64Concat s"
    and "IsBlake2_128Concat s'" and "\<not> IsBlake2_128 s'" and "\<not> IsBlake2_256 s'"
    and "length (D 16 [] k) = 16"
  shows "HashFunc s = HashFunc s'
       \<and> (\<exists>d. HashFunc s = Inr (Concat128Hash d) \<and> New128Concat [] = Inr d
             \<and> digestConcat128_Sum D (fst (digestConcat128_Write d k)) [] = D 16 [] k @ k
             \<and> digestConcat128_Sum D (fst (digestConcat128_Write d k)) [] \<noteq> k)"
  using assms
  by (auto simp add: HashFunc_def as_Hash_def New128Concat_nil digestConcat128_Write_eq
      digestConcat128_Sum_def blake2b_Sum_def)

lemmas hasher_defs = hasher_none_def hasher_Blake2_128Concat_def hasher_Identity_def

theorem HashFunc_Identity_is_Blake2_128Concat_witness:
  "IsIdentity hasher_Identity \<and> \<not> IsBlake2_128 hasher_Identity
   \<and> \<not> IsBlake2_256 hasher_Identity \<and> \<not> IsTwox128 hasher_Identity
   \<and> \<not> IsTwox256 hasher_Identity \<and> \<not> IsTwox64Concat hasher_Identity
   \<and> IsBlake2_128Concat hasher_Blake2_128Concat \<and> \<not> IsBlake2_128 hasher_Blake2_128Concat
   \<and> \<not> IsBlake2_256 hasher_Blake2_128Concat
   \<and> length (zero_digest 16 [] [1, 2, 3]) = 16
   \<and> HashFunc hasher_Identity = HashFunc hasher_Blake2_128Concat
   \<and> HashFunc hasher_Identity
       = Inr (Concat128Hash
               \<lparr>hasher = \<lparr>digest_size = 16, mac_key = [], written = []\<rparr>, data = []\<rparr>)
   \<and> digestConcat128_Sum zero_digest
         (fst (digestConcat128_Write
                \<lparr>hasher = \<lparr>digest_size = 16, mac_key = [], written = []\<rparr>, data = []\<rparr>
                [1, 2, 3])) []
       = replicate 16 0 @ [1, 2, 3]"
  using HashFunc_Identity_is_Blake2_128Concat
    [of hasher_Identity hasher_Blake2_128Concat zero_digest "[1, 2, 3]"]
  by (auto simp add: hasher_defs zero_digest_def New128Concat_nil)

text \<open>
  C10. For a storage entry that is neither a map nor a double map, \<open>Hasher\<close> returns the
  Twox-128 hasher and no error; \<open>Hasher2\<close> returns an error for every entry that is not a
  double map.
\<close>

theorem Hasher_Plain_default_Twox128:
  "(\<not> IsMap (Type s) \<and> \<not> IsDoubleMap (Type s) \<longrightarrow>
      StorageFunctionMetadataV11_Hasher s = Inr (XXHash XX128 []))
   \<and> (\<not> IsDoubleMap (Type s) \<longrightarrow>
      StorageFunctionMetadataV11_Hasher2 s = Inl OnlyDoubleMapsHaveHasher2)"
  by (simp add: StorageFunctionMetadataV11_Hasher_def StorageFunctionMetadataV11_Hasher2_def)

theorem Hasher_Plain_default_Twox128_witness:
  "\<forall>mo t mp dm.
     (let s = \<lparr>StorageFunctionMetadataV11.Name = ''Now'', Modifier = mo,
               Type = \<lparr>IsType = True, AsType = t, IsMap = False, AsMap = mp,
                       IsDoubleMap = False, AsDoubleMap = dm\<rparr>,
               Fallback = [], Documentation = []\<rparr>
      in IsPlain s \<and> \<not> IsMap (Type s) \<and> \<not> IsDoubleMap (Type s)
         \<and> StorageFunctionMetadataV11_Hasher s = Inr (XXHash XX128 [])
         \<and> StorageFunctionMetadataV11_Hasher2 s = Inl OnlyDoubleMapsHaveHasher2)"
proof (intro allI)
  fix mo t mp dm
  show "let s = \<lparr>StorageFunctionMetadataV11.Name = ''Now'', Modifier = mo,
               Type = \<lparr>IsType = True, AsType = t, IsMap = False, AsMap = mp,
                       IsDoubleMap = False, AsDoubleMap = dm\<rparr>,
               Fallback = [], Documentation = []\<rparr>
      in IsPlain s \<and> \<not> IsMap (Type s) \<and> \<not> IsDoubleMap (Type s)
         \<and> StorageFunctionMetadataV11_Hasher s = Inr (XXHash XX128 [])
         \<and> StorageFunctionMetadataV11_Hasher2 s = Inl OnlyDoubleMapsHaveHasher2"
    using Hasher_Plain_default_Twox128
      [of "\<lparr>StorageFunctionMetadataV11.Name = ''Now'', Modifier = mo,
               Type = \<lparr>IsType = True, AsType = t, IsMap = False, AsMap = mp,
                       IsDoubleMap = False, AsDoubleMap = dm\<rparr>,
               Fallback = [], Documentation = []\<rparr>"]
    by (simp add: IsPlain_def)
qed

section \<open>Properties of the module codec\<close>


lemma check_err_Inr: "check_err (Inr x) f = f x"
  by (simp add: check_err_def)

lemma check_err_Inl: "check_err (Inl e) f = Inl e"
  by (simp add: check_err_def)






lemma ModuleMetadataV11_Encode_succeeds:
  assumes "enc_Text c (ModuleMetadataV11.Name m) = Inr bn"
    and "(if HasStorage m then enc_Storage c (Storage m) else Inr []) = Inr bS"
    and "(if HasCalls m then enc_Calls c (Calls m) else Inr []) = Inr bC"
    and "(if HasEvents m then enc_Events c (Events m) else Inr []) = Inr bE"
    and "enc_Constants c (Constants m) = Inr bk"
    and "enc_Errors c (Errors m) = Inr br"
  shows "ModuleMetadataV11_Encode c m =
           Inr (bn @ [if HasStorage m then 1 else 0] @ bS
                   @ [if HasCalls m then 1 else 0] @ bC
                   @ [if HasEvents m then 1 else 0] @ bE @ bk @ br)"
  unfolding ModuleMetadataV11_Encode_def encode_bool_def
  by (simp only: assms check_err_Inr append_Cons append_Nil)







section \<open>Properties of the event decoder\<close>

lemma decode_event_records_from_add:
  "decode_event_records_from c m dest i (k + n) bs =
     check_err (decode_event_records_from c m dest i k bs) (\<lambda>(dest, bs).
       decode_event_records_from c m dest (i + k) n bs)"
proof (induction k arbitrary: dest i bs)
  case 0
  show ?case by (simp add: check_err_Inr)
next
  case (Suc k)
  show ?case
    by (cases "decode_event_record c m dest i bs") (auto simp: Suc check_err_Inr check_err_Inl)
qed

lemma decode_event_record_shape:
  assumes "decode_phase c bs = Inr (phase, bs1)"
    and "decode_EventID bs1 = Inr (eventID, bs2)"
    and "FindEventNamesForEventID m eventID = Inr (moduleName, eventName)"
    and "dest (moduleName @ ''_'' @ eventName) = Some slot"
    and "check_event_shape i eventID (moduleName @ ''_'' @ eventName) (elem_fields slot) = Some err"
  shows "decode_event_record c m dest i bs = Inl err"
  using assms by (simp add: decode_event_record_def check_err_Inr)

text \<open>
  C3. Let record number \<open>i\<close> be reached (the count is larger than \<open>i\<close> and the records
  before it decode), let its phase and \<open>EventID\<close> decode and its names resolve, and let
  the destination have the slot named \<open>{module}_{event}\<close>. Then \<open>DecodeEventRecords\<close>
  fails: with the too-few-fields error (event number, \<open>EventID\<close>, field name, field
  count) if the slot's element type has fewer than two fields; else with the
  first-field error (expected \<open>Phase\<close>, type found) if the first field is not \<open>Phase\<close>;
  else with the last-field error (expected \<open>[]Hash\<close>, type found) if the last field is
  not \<open>[]Hash\<close>.
\<close>

theorem DecodeEventRecords_shape_errors:
  assumes "decode_compact c e = Inr (n, bs0)" and "i < n"
    and "decode_event_records_from c m dest 0 i bs0 = Inr (dest_i, bs)"
    and "decode_phase c bs = Inr (phase, bs1)"
    and "decode_EventID bs1 = Inr (eventID, bs2)"
    and "FindEventNamesForEventID m eventID = Inr (moduleName, eventName)"
    and "dest_i (moduleName @ ''_'' @ eventName) = Some slot"
  shows "(length (elem_fields slot) < 2 \<longrightarrow>
            DecodeEventRecords c e m dest =
              Inl (EventTooFewFields i eventID (moduleName @ ''_'' @ eventName)
                     (length (elem_fields slot))))
       \<and> (2 \<le> length (elem_fields slot) \<and> hd (elem_fields slot) \<noteq> PhaseType \<longrightarrow>
            DecodeEventRecords c e m dest =
              Inl (EventFirstFieldNotPhase i eventID (moduleName @ ''_'' @ eventName)
                     PhaseType (hd (elem_fields slot))))
       \<and> (2 \<le> length (elem_fields slot) \<and> hd (elem_fields slot) = PhaseType
            \<and> last (elem_fields slot) \<noteq> HashSliceType \<longrightarrow>
            DecodeEventRecords c e m dest =
              Inl (EventLastFieldNotTopics i eventID (moduleName @ ''_'' @ eventName)
                     HashSliceType (last (elem_fields slot))))"
proof -
  obtain k where n: "n = i + Suc k"
    using less_imp_Suc_add [OF \<open>i < n\<close>] by auto
  have fail: "DecodeEventRecords c e m dest = Inl err"
    if "check_event_shape i eventID (moduleName @ ''_'' @ eventName) (elem_fields slot) = Some err"
    for err
  proof -
    have "decode_event_record c m dest_i i bs = Inl err"
      using assms(4-7) that by (rule decode_event_record_shape)
    then have "decode_event_records_from c m dest 0 n bs0 = Inl err"
      unfolding n decode_event_records_from_add
      by (simp add: assms(3) check_err_Inr check_err_Inl)
    then show ?thesis
      by (simp add: DecodeEventRecords_def assms(1) check_err_Inr check_err_Inl)
  qed
  show ?thesis
    by (auto intro!: fail simp: check_event_shape_def)
qed

lemma example_event_prefix:
  "decode_compact example_event_codec example_raw = Inr (1, [0, 2, 0, 0, 0, 0, 1, 7, 7])"
  "decode_event_records_from example_event_codec example_metadata (example_destination fs) 0 0
     [0, 2, 0, 0, 0, 0, 1, 7, 7] = Inr (example_destination fs, [0, 2, 0, 0, 0, 0, 1, 7, 7])"
  "decode_phase example_event_codec [0, 2, 0, 0, 0, 0, 1, 7, 7] = Inr (ApplyExtrinsic 2, [0, 1, 7, 7])"
  "decode_EventID [0, 1, 7, 7] = Inr ((0, 1), [7, 7])"
  "FindEventNamesForEventID example_metadata (0, 1) = Inr (''C'', ''y'')"
  "example_destination fs (''C'' @ ''_'' @ ''y'') = Some \<lparr>elem_fields = fs, records = []\<rparr>"
  by (simp_all add: example_event_codec_def example_raw_def decode_EventID_def
      FindEventNamesForEventID_def example_defs example_destination_def)

theorem DecodeEventRecords_shape_errors_witness:
  "DecodeEventRecords example_event_codec example_raw example_metadata
     (example_destination [OtherType ''uint8''])
     = Inl (EventTooFewFields 0 (0, 1) ''C_y'' 1)
   \<and> DecodeEventRecords example_event_codec example_raw example_metadata
       (example_destination [OtherType ''uint8'', OtherType ''uint32'', HashSliceType])
     = Inl (EventFirstFieldNotPhase 0 (0, 1) ''C_y'' PhaseType (OtherType ''uint8''))
   \<and> DecodeEventRecords example_event_codec example_raw example_metadata
       (example_destination [PhaseType, OtherType ''uint32'', PhaseType])
     = Inl (EventLastFieldNotTopics 0 (0, 1) ''C_y'' HashSliceType PhaseType)"
proof -
  have lt: "(0::nat) < 1" by simp
  note th = DecodeEventRecords_shape_errors [OF example_event_prefix(1) lt
      example_event_prefix(2,3,4,5,6)]
  show ?thesis
    using th [of "[OtherType ''uint8'']"]
      th [of "[OtherType ''uint8'', OtherType ''uint32'', HashSliceType]"]
      th [of "[PhaseType, OtherType ''uint32'', PhaseType]"]
    by simp
qed

end
